theory Spec2Isabelle
  imports Complex_Main
begin

section \<open>Spectrum energy bin grouping (gammapy/spectrum/energy\_group.py)\<close>

text \<open>
  A shallow embedding of the three classes of \<^verbatim>\<open>energy_group.py\<close>:
  \<^verbatim>\<open>SpectrumEnergyGroup\<close> (one group), \<^verbatim>\<open>SpectrumEnergyGroups\<close> (a list of
  groups with its table conversions and the lookup by energy) and
  \<^verbatim>\<open>SpectrumEnergyGroupMaker\<close> (the two grouping algorithms).

  Energies are astropy \<^verbatim>\<open>Quantity\<close> values: a number with a unit. Comparing two
  quantities, subtracting them and testing them with \<^verbatim>\<open>==\<close> converts the units first, so
  these operations see only the physical value. An \<open>energy\<close> is this physical value, the
  exact size in TeV as a rational number, and a group holds its two energies as such.
  The unit in which a quantity is held matters where a table keeps the numbers of a
  column apart from the column's unit; there quantities are numbers with units.
  Bin indices and group indices are Python or numpy integers, modelled by \<^typ>\<open>int\<close>.
  Bin types are strings.
\<close>

subsection \<open>Energies and exceptions\<close>

type_synonym energy = rat

definition TeV :: energy where
  "TeV = 1"

definition MeV :: energy where
  "MeV = 1 / 1000000"

definition GeV :: energy where
  "GeV = 1 / 1000"

text \<open>
  A unit of energy is given by its size, which is positive. A \<open>Quantity\<close> is a number
  with a unit; \<open>physical\<close> is what it stands for, and \<open>quantity u e\<close> is the energy
  \<open>e\<close> held in the unit \<open>u\<close>.
\<close>

type_synonym energy_unit = energy

record Quantity =
  q_value :: rat
  q_unit :: energy_unit

definition physical :: "Quantity \<Rightarrow> energy" where
  "physical q = q_value q * q_unit q"

definition quantity :: "energy_unit \<Rightarrow> energy \<Rightarrow> Quantity" where
  "quantity u e = \<lparr>q_value = e / u, q_unit = u\<rparr>"

text \<open>
  Every \<^verbatim>\<open>raise\<close> of the module, and every failing read of an array or table that the
  module can reach, is a value of \<open>error\<close>. \<open>exception_class\<close> gives the Python
  exception class of each.
\<close>

datatype error =
    Invalid_bin_type string       \<comment> \<open>\<^verbatim>\<open>ValueError('Invalid bin type: {}'.format(bin_type))\<close>\<close>
  | Inconsistent_bin_type         \<comment> \<open>\<^verbatim>\<open>ValueError('Inconsistent bin_type within group.')\<close>\<close>
  | No_group_found energy         \<comment> \<open>\<^verbatim>\<open>IndexError('No group found with energy: {}'.format(energy))\<close>\<close>
  | Index_out_of_bounds           \<comment> \<open>numpy: reading an array outside its bounds\<close>
  | Argmin_of_empty               \<comment> \<open>numpy: \<^verbatim>\<open>argmin\<close> along an axis of length 0\<close>
  | No_tables_to_stack            \<comment> \<open>astropy: \<^verbatim>\<open>vstack\<close> of an empty list of tables\<close>
  | Outside_int64                 \<comment> \<open>numpy: \<^verbatim>\<open>np.arange\<close> with a bound outside the 64-bit integers\<close>

text \<open>
  \<open>Library_error\<close> stands for what happens inside numpy or astropy where the module's
  source does not determine it: the class of the exception of \<^verbatim>\<open>vstack\<close>, and
  \<^verbatim>\<open>np.arange\<close> beyond the 64-bit integers, where the array is no longer an array of
  integers and the model does not follow it.
\<close>

datatype exception = ValueError | IndexError | Library_error

fun exception_class :: "error \<Rightarrow> exception" where
  "exception_class (Invalid_bin_type t) = ValueError"
| "exception_class Inconsistent_bin_type = ValueError"
| "exception_class (No_group_found e) = IndexError"
| "exception_class Index_out_of_bounds = IndexError"
| "exception_class Argmin_of_empty = ValueError"
| "exception_class No_tables_to_stack = Library_error"
| "exception_class Outside_int64 = Library_error"

text \<open>Sequencing of two computations that may raise: the first exception wins.\<close>

definition and_then :: "error + 'a \<Rightarrow> ('a \<Rightarrow> error + 'b) \<Rightarrow> error + 'b" where
  "and_then r f = (case r of Inl e \<Rightarrow> Inl e | Inr v \<Rightarrow> f v)"

text \<open>
  Reading \<^verbatim>\<open>xs[i]\<close> from a Python list or a numpy array: a negative index counts from
  the end, and an index outside \<open>-len .. len - 1\<close> raises IndexError.
\<close>

definition getitem :: "'a list \<Rightarrow> int \<Rightarrow> error + 'a" where
  "getitem xs i =
     (if int (length xs) \<le> i \<or> i < - int (length xs) then Inl Index_out_of_bounds
      else if i < 0 then Inr (xs ! nat (int (length xs) + i))
      else Inr (xs ! nat i))"

subsection \<open>SpectrumEnergyGroup\<close>

record SpectrumEnergyGroup =
  energy_group_idx :: int
  bin_idx_min :: int
  bin_idx_max :: int
  bin_type :: string
  energy_min :: energy
  energy_max :: energy

definition valid_bin_types :: "string list" where
  "valid_bin_types = [''normal'', ''underflow'', ''overflow'']"

text \<open>
  \<^verbatim>\<open>SpectrumEnergyGroup.__init__\<close>: the three indices are stored, the bin type is checked
  against \<open>valid_bin_types\<close>, then the bin type and the two energies are stored.
\<close>

definition SpectrumEnergyGroup_init ::
  "int \<Rightarrow> int \<Rightarrow> int \<Rightarrow> string \<Rightarrow> energy \<Rightarrow> energy \<Rightarrow> error + SpectrumEnergyGroup" where
  "SpectrumEnergyGroup_init egi bmin bmax bt emin emax =
     (if bt \<notin> set valid_bin_types then Inl (Invalid_bin_type bt)
      else Inr \<lparr>energy_group_idx = egi, bin_idx_min = bmin, bin_idx_max = bmax,
                bin_type = bt, energy_min = emin, energy_max = emax\<rparr>)"

text \<open>\<^verbatim>\<open>contains_energy\<close>: \<^verbatim>\<open>(self.energy_min <= energy) & (energy < self.energy_max)\<close>.\<close>

definition contains_energy :: "SpectrumEnergyGroup \<Rightarrow> energy \<Rightarrow> bool" where
  "contains_energy g e = (energy_min g \<le> e \<and> e < energy_max g)"

text \<open>
  \<^verbatim>\<open>bin_idx_array\<close>: \<^verbatim>\<open>np.arange(self.bin_idx_min, self.bin_idx_max + 1)\<close>, an array of
  64-bit integers when both bounds are.
\<close>

definition int64 :: "int \<Rightarrow> bool" where
  "int64 i = (- (2 ^ 63) \<le> i \<and> i < 2 ^ 63)"

definition bin_idx_array :: "SpectrumEnergyGroup \<Rightarrow> error + int list" where
  "bin_idx_array g =
     (if int64 (bin_idx_min g) \<and> int64 (bin_idx_max g + 1)
      then Inr [bin_idx_min g .. bin_idx_max g]
      else Inl Outside_int64)"

text \<open>
  A group object as the table writers see it: the group, and the units in which its
  \<^verbatim>\<open>energy_min\<close> and \<^verbatim>\<open>energy_max\<close> quantities are held.
\<close>

record energy_units =
  unit_of_energy_min :: energy_unit
  unit_of_energy_max :: energy_unit

type_synonym group_object = "SpectrumEnergyGroup \<times> energy_units"

text \<open>
  An astropy table with one energy bin per row. A column of quantities is stored as
  the numbers and one unit for the whole column.
\<close>

record bin_cells =
  cell_bin_idx :: int
  cell_energy_group_idx :: int
  cell_bin_type :: string
  cell_energy_min :: rat
  cell_energy_max :: rat

record bin_table_data =
  bt_rows :: "bin_cells list"
  bt_energy_min_unit :: energy_unit
  bt_energy_max_unit :: energy_unit

text \<open>
  \<^verbatim>\<open>bin_table\<close>: one row per bin index of the group; the group's index, bin type and
  energies are broadcast to every row. The energy columns take the numbers and the units
  of the group's quantities.
\<close>

definition bin_table :: "group_object \<Rightarrow> error + bin_table_data" where
  "bin_table obj =
     (let g = fst obj;
          energy_min_q = quantity (unit_of_energy_min (snd obj)) (energy_min g);
          energy_max_q = quantity (unit_of_energy_max (snd obj)) (energy_max g)
      in and_then (bin_idx_array g) (\<lambda>idxs.
         Inr \<lparr>bt_rows =
                 map (\<lambda>b. \<lparr>cell_bin_idx = b, cell_energy_group_idx = energy_group_idx g,
                            cell_bin_type = bin_type g,
                            cell_energy_min = q_value energy_min_q,
                            cell_energy_max = q_value energy_max_q\<rparr>) idxs,
               bt_energy_min_unit = q_unit energy_min_q,
               bt_energy_max_unit = q_unit energy_max_q\<rparr>))"

text \<open>
  The table as \<^verbatim>\<open>from_total_table\<close> reads it: the index and type columns as they are,
  and the energy columns through \<^verbatim>\<open>.quantity\<close>, every number with the unit of its column.
\<close>

record bin_row =
  row_bin_idx :: int
  row_energy_group_idx :: int
  row_bin_type :: string
  row_energy_min :: energy
  row_energy_max :: energy

type_synonym total_table = "bin_row list"

definition table_quantities :: "bin_table_data \<Rightarrow> total_table" where
  "table_quantities t =
     map (\<lambda>c. \<lparr>row_bin_idx = cell_bin_idx c, row_energy_group_idx = cell_energy_group_idx c,
                row_bin_type = cell_bin_type c,
                row_energy_min =
                  physical \<lparr>q_value = cell_energy_min c, q_unit = bt_energy_min_unit t\<rparr>,
                row_energy_max =
                  physical \<lparr>q_value = cell_energy_max c, q_unit = bt_energy_max_unit t\<rparr>\<rparr>)
         (bt_rows t)"

text \<open>
  The rows read from the bin table of a single group whose energies are held in the
  units of the columns: one row per bin index, each with the group's index, bin type
  and energies.
\<close>

definition bin_rows :: "SpectrumEnergyGroup \<Rightarrow> total_table" where
  "bin_rows g =
     map (\<lambda>b. \<lparr>row_bin_idx = b, row_energy_group_idx = energy_group_idx g,
                row_bin_type = bin_type g, row_energy_min = energy_min g,
                row_energy_max = energy_max g\<rparr>)
         [bin_idx_min g .. bin_idx_max g]"

text \<open>
  \<^verbatim>\<open>to_dict\<close>: the \<^verbatim>\<open>OrderedDict\<close> of the six \<^verbatim>\<open>fields\<close>; the two energies are the
  group's quantities.
\<close>

record group_dict =
  d_energy_group_idx :: int
  d_bin_idx_min :: int
  d_bin_idx_max :: int
  d_bin_type :: string
  d_energy_min :: Quantity
  d_energy_max :: Quantity

definition to_dict :: "group_object \<Rightarrow> group_dict" where
  "to_dict obj =
     (let g = fst obj in
      \<lparr>d_energy_group_idx = energy_group_idx g, d_bin_idx_min = bin_idx_min g,
       d_bin_idx_max = bin_idx_max g, d_bin_type = bin_type g,
       d_energy_min = quantity (unit_of_energy_min (snd obj)) (energy_min g),
       d_energy_max = quantity (unit_of_energy_max (snd obj)) (energy_max g)\<rparr>)"

text \<open>\<^verbatim>\<open>from_dict\<close>: the six fields are read from the dict and passed to the constructor.\<close>

definition from_dict :: "group_dict \<Rightarrow> error + SpectrumEnergyGroup" where
  "from_dict d =
     SpectrumEnergyGroup_init (d_energy_group_idx d) (d_bin_idx_min d) (d_bin_idx_max d)
       (d_bin_type d) (physical (d_energy_min d)) (physical (d_energy_max d))"

subsection \<open>SpectrumEnergyGroups\<close>

type_synonym SpectrumEnergyGroups = "SpectrumEnergyGroup list"

text \<open>\<^verbatim>\<open>np.unique\<close>: the distinct values of an array, in ascending order.\<close>

definition unique :: "int list \<Rightarrow> int list" where
  "unique xs = sort (remdups xs)"

text \<open>
  \<^verbatim>\<open>table[table['energy_group_idx'] == energy_group_idx]\<close>: the rows of one group, in
  table order.
\<close>

definition group_rows :: "total_table \<Rightarrow> int \<Rightarrow> total_table" where
  "group_rows table egi = filter (\<lambda>r. row_energy_group_idx r = egi) table"

text \<open>
  The body of the \<^verbatim>\<open>for\<close> loop of \<^verbatim>\<open>from_total_table\<close>, for the group indices still
  to visit and the groups appended so far. \<^verbatim>\<open>[0]\<close> and \<^verbatim>\<open>[-1]\<close> read the first and
  the last row of the group's rows.
\<close>

fun from_total_table_loop ::
  "total_table \<Rightarrow> int list \<Rightarrow> SpectrumEnergyGroups \<Rightarrow> error + SpectrumEnergyGroups" where
  "from_total_table_loop table [] groups = Inr groups"
| "from_total_table_loop table (egi # rest) groups =
     (let group_table = group_rows table egi in
      and_then (getitem (map row_bin_idx group_table) 0) (\<lambda>bmin.
      and_then (getitem (map row_bin_idx group_table) (- 1)) (\<lambda>bmax.
      if 1 < card (set (map row_bin_type group_table)) then Inl Inconsistent_bin_type
      else
      and_then (getitem (map row_bin_type group_table) 0) (\<lambda>bt.
      and_then (getitem (map row_energy_min group_table) 0) (\<lambda>emin.
      and_then (getitem (map row_energy_max group_table) (- 1)) (\<lambda>emax.
      and_then (SpectrumEnergyGroup_init egi bmin bmax bt emin emax) (\<lambda>group.
      from_total_table_loop table rest (groups @ [group]))))))))"

definition from_total_table :: "total_table \<Rightarrow> error + SpectrumEnergyGroups" where
  "from_total_table table =
     from_total_table_loop table (unique (map row_energy_group_idx table)) []"

text \<open>
  Modelled from the spec: \<^verbatim>\<open>table_from_row_data\<close> and \<^verbatim>\<open>table_row_to_dict\<close> of
  \<^verbatim>\<open>gammapy.utils.table\<close>, which are not part of the sources at hand. The spec gives
  the group table as one row per group with the columns \<^verbatim>\<open>energy_group_idx\<close>,
  \<^verbatim>\<open>bin_idx_min\<close>, \<^verbatim>\<open>bin_idx_max\<close>, \<^verbatim>\<open>bin_type\<close>, \<^verbatim>\<open>energy_min\<close>, \<^verbatim>\<open>energy_max\<close>,
  and asks the conversion of groups to rows and back to lose nothing. A column of
  quantities has one unit: the table built from a list of row dicts takes for each
  energy column the unit of the first row and converts the other rows' quantities to
  it; a row is read back as the dict of its cells, the energies as quantities in the
  units of their columns. A table built from no rows has no columns, and its two unit
  fields are not read.
\<close>

record group_cells =
  gcell_energy_group_idx :: int
  gcell_bin_idx_min :: int
  gcell_bin_idx_max :: int
  gcell_bin_type :: string
  gcell_energy_min :: rat
  gcell_energy_max :: rat

record group_table_data =
  gt_rows :: "group_cells list"
  gt_energy_min_unit :: energy_unit
  gt_energy_max_unit :: energy_unit

definition table_from_row_data :: "group_dict list \<Rightarrow> group_table_data" where
  "table_from_row_data rows =
     (case rows of
        [] \<Rightarrow> \<lparr>gt_rows = [], gt_energy_min_unit = 1, gt_energy_max_unit = 1\<rparr>
      | first # _ \<Rightarrow>
          \<lparr>gt_rows =
             map (\<lambda>d. \<lparr>gcell_energy_group_idx = d_energy_group_idx d,
                        gcell_bin_idx_min = d_bin_idx_min d,
                        gcell_bin_idx_max = d_bin_idx_max d,
                        gcell_bin_type = d_bin_type d,
                        gcell_energy_min =
                          q_value (quantity (q_unit (d_energy_min first))
                                     (physical (d_energy_min d))),
                        gcell_energy_max =
                          q_value (quantity (q_unit (d_energy_max first))
                                     (physical (d_energy_max d)))\<rparr>) rows,
           gt_energy_min_unit = q_unit (d_energy_min first),
           gt_energy_max_unit = q_unit (d_energy_max first)\<rparr>)"

definition table_row_to_dict :: "group_table_data \<Rightarrow> group_cells \<Rightarrow> group_dict" where
  "table_row_to_dict table row =
     \<lparr>d_energy_group_idx = gcell_energy_group_idx row,
      d_bin_idx_min = gcell_bin_idx_min row,
      d_bin_idx_max = gcell_bin_idx_max row,
      d_bin_type = gcell_bin_type row,
      d_energy_min = \<lparr>q_value = gcell_energy_min row, q_unit = gt_energy_min_unit table\<rparr>,
      d_energy_max = \<lparr>q_value = gcell_energy_max row, q_unit = gt_energy_max_unit table\<rparr>\<rparr>"

text \<open>
  \<^verbatim>\<open>from_group_table\<close>: the list comprehension constructs one group per row, in row
  order; the first constructor that raises ends it.
\<close>

fun from_group_table_rows :: "group_table_data \<Rightarrow> group_cells list \<Rightarrow> error + SpectrumEnergyGroups" where
  "from_group_table_rows table [] = Inr []"
| "from_group_table_rows table (row # rows) =
     and_then (from_dict (table_row_to_dict table row)) (\<lambda>g.
     and_then (from_group_table_rows table rows) (\<lambda>gs. Inr (g # gs)))"

definition from_group_table :: "group_table_data \<Rightarrow> error + SpectrumEnergyGroups" where
  "from_group_table table = from_group_table_rows table (gt_rows table)"

text \<open>
  astropy's \<^verbatim>\<open>vstack\<close>: the rows of the tables, one table after the other. All tables here
  have the same five columns. A column of the stacked table keeps the numbers of the
  tables' columns as they are and has one unit, that of the last table. An empty list of
  tables has nothing to stack and is rejected.
\<close>

definition table_vstack :: "bin_table_data list \<Rightarrow> error + bin_table_data" where
  "table_vstack tables =
     (if tables = [] then Inl No_tables_to_stack
      else Inr \<lparr>bt_rows = concat (map bt_rows tables),
                bt_energy_min_unit = bt_energy_min_unit (last tables),
                bt_energy_max_unit = bt_energy_max_unit (last tables)\<rparr>)"

text \<open>
  \<^verbatim>\<open>to_total_table\<close>: the list comprehension takes the bin table of every group, in list
  order, and the first one that fails ends it; the tables are stacked.
\<close>

fun bin_tables :: "group_object list \<Rightarrow> error + bin_table_data list" where
  "bin_tables [] = Inr []"
| "bin_tables (obj # objs) =
     and_then (bin_table obj) (\<lambda>t.
     and_then (bin_tables objs) (\<lambda>ts. Inr (t # ts)))"

definition to_total_table :: "group_object list \<Rightarrow> error + bin_table_data" where
  "to_total_table objs = and_then (bin_tables objs) table_vstack"

definition to_group_table :: "group_object list \<Rightarrow> group_table_data" where
  "to_group_table objs = table_from_row_data (map to_dict objs)"

text \<open>
  \<^verbatim>\<open>find_list_idx\<close>: the loop over \<^verbatim>\<open>enumerate(self)\<close> returns at the first group that
  contains the energy; falling out of the loop raises IndexError.
\<close>

fun find_list_idx_loop :: "(nat \<times> SpectrumEnergyGroup) list \<Rightarrow> energy \<Rightarrow> error + nat" where
  "find_list_idx_loop [] energy = Inl (No_group_found energy)"
| "find_list_idx_loop ((idx, g) # rest) energy =
     (if contains_energy g energy then Inr idx else find_list_idx_loop rest energy)"

definition find_list_idx :: "SpectrumEnergyGroups \<Rightarrow> energy \<Rightarrow> error + nat" where
  "find_list_idx groups energy = find_list_idx_loop (enumerate 0 groups) energy"

subsection \<open>SpectrumEnergyGroupMaker\<close>

text \<open>
  Modelled from the spec: the observation's reconstructed-energy binning \<^verbatim>\<open>obs.e_reco\<close>,
  whose class is not part of the sources at hand. The spec gives it as the existing fine
  binning with a lower and an upper edge per bin: a list of bins, each a pair
  (lower edge, upper edge), with \<^verbatim>\<open>lower_bounds\<close>, \<^verbatim>\<open>upper_bounds\<close> and \<^verbatim>\<open>nbins\<close>
  read from it.
\<close>

type_synonym EnergyBounds = "(energy \<times> energy) list"

definition lower_bounds :: "EnergyBounds \<Rightarrow> energy list" where
  "lower_bounds ebounds_obs = map fst ebounds_obs"

definition upper_bounds :: "EnergyBounds \<Rightarrow> energy list" where
  "upper_bounds ebounds_obs = map snd ebounds_obs"

definition nbins :: "EnergyBounds \<Rightarrow> nat" where
  "nbins ebounds_obs = length ebounds_obs"

record SpectrumObservation =
  e_reco :: EnergyBounds

text \<open>
  The maker holds the observation (read only) and the groups, \<^verbatim>\<open>None\<close> until one of
  the two algorithms has run. Each algorithm returns the maker with \<open>groups\<close> set.
\<close>

record SpectrumEnergyGroupMaker =
  obs :: SpectrumObservation
  groups :: "SpectrumEnergyGroups option"

definition SpectrumEnergyGroupMaker_init :: "SpectrumObservation \<Rightarrow> SpectrumEnergyGroupMaker" where
  "SpectrumEnergyGroupMaker_init ob = \<lparr>obs = ob, groups = None\<rparr>"

text \<open>
  \<^verbatim>\<open>groups_from_obs\<close>: a table with one row per bin of the observation (row \<open>i\<close> has
  bin index \<open>i\<close>, group index \<open>i\<close>, bin type normal and the edges of bin \<open>i\<close>) is
  handed to \<open>from_total_table\<close>.
\<close>

definition groups_from_obs :: "SpectrumEnergyGroupMaker \<Rightarrow> error + SpectrumEnergyGroupMaker" where
  "groups_from_obs self =
     (let ebounds_obs = e_reco (obs self);
          sz = nbins ebounds_obs;
          table = map (\<lambda>i. \<lparr>row_bin_idx = int i, row_energy_group_idx = int i,
                             row_bin_type = ''normal'',
                             row_energy_min = lower_bounds ebounds_obs ! i,
                             row_energy_max = upper_bounds ebounds_obs ! i\<rparr>) [0..<sz]
      in and_then (from_total_table table) (\<lambda>gs. Inr (self\<lparr>groups := Some gs\<rparr>)))"

text \<open>\<^verbatim>\<open>np.sign\<close>: -1, 0 or 1.\<close>

definition sign :: "energy \<Rightarrow> int" where
  "sign x = (if x < 0 then - 1 else if x = 0 then 0 else 1)"

text \<open>
  \<^verbatim>\<open>np.argmin(a, axis=1)\<close> of a matrix with \<open>ncols\<close> columns: for each row the index of
  the first occurrence of the row's minimum. It raises when the rows are empty.
\<close>

primrec first_index :: "int \<Rightarrow> int list \<Rightarrow> nat" where
  "first_index v [] = 0"
| "first_index v (x # xs) = (if x = v then 0 else Suc (first_index v xs))"

definition argmin_axis1 :: "nat \<Rightarrow> int list list \<Rightarrow> error + int list" where
  "argmin_axis1 ncols a =
     (if ncols = 0 then Inl Argmin_of_empty
      else Inr (map (\<lambda>row. int (first_index (min_list row) row)) a))"

text \<open>
  The normal groups of \<^verbatim>\<open>compute_groups_fixed\<close>: the \<^verbatim>\<open>for\<close> loop over
  \<^verbatim>\<open>range(len(ebounds) - 1)\<close>, with the running \<^verbatim>\<open>energy_group_idx\<close> and the groups so far.
\<close>

fun normal_groups_loop ::
  "EnergyBounds \<Rightarrow> int list \<Rightarrow> nat list \<Rightarrow> int \<Rightarrow> SpectrumEnergyGroups
     \<Rightarrow> error + int \<times> SpectrumEnergyGroups" where
  "normal_groups_loop ebounds_obs lower_indices [] egi gs =
     Inr (egi, gs)"
| "normal_groups_loop ebounds_obs lower_indices (index # rest) egi gs =
     and_then (getitem lower_indices (int index)) (\<lambda>lo.
     and_then (getitem lower_indices (int index + 1)) (\<lambda>hi.
     and_then (getitem (lower_bounds ebounds_obs) lo) (\<lambda>emin.
     and_then (getitem (upper_bounds ebounds_obs) (hi - 1)) (\<lambda>emax.
     and_then (SpectrumEnergyGroup_init egi lo (hi - 1) ''normal'' emin emax)
       (\<lambda>group.
     normal_groups_loop ebounds_obs lower_indices rest (egi + 1)
       (gs @ [group]))))))"

text \<open>
  \<^verbatim>\<open>compute_groups_fixed\<close>. \<open>diff\<close> has one row per requested boundary and one column
  per bin of the observation; \<open>lower_indices\<close> holds, per boundary, the first column
  where the sign of the difference is least. A last index of 0 is replaced by \<open>nbins\<close>.
  Then come the underflow group (if the first index is positive), the normal groups and
  the overflow group (if the last index is below \<open>nbins\<close>).
\<close>

definition compute_groups_fixed ::
  "SpectrumEnergyGroupMaker \<Rightarrow> energy list \<Rightarrow> error + SpectrumEnergyGroupMaker" where
  "compute_groups_fixed self ebounds =
     (let ebounds_obs = e_reco (obs self);
          energy_binning_offset = map (\<lambda>e. e - 1 * MeV) ebounds;
          diff = map (\<lambda>e. map (\<lambda>l. e - l) (lower_bounds ebounds_obs)) energy_binning_offset
      in
      and_then (argmin_axis1 (nbins ebounds_obs) (map (map sign) diff)) (\<lambda>lower_indices0.
      and_then (getitem lower_indices0 (- 1)) (\<lambda>last0.
      let lower_indices =
            (if last0 = 0
             then lower_indices0[length lower_indices0 - 1 := int (nbins ebounds_obs)]
             else lower_indices0)
      in
      and_then (getitem lower_indices 0) (\<lambda>first.
      and_then
        (if first > 0 then
           and_then (getitem (lower_bounds ebounds_obs) 0) (\<lambda>emin.
           and_then (getitem (upper_bounds ebounds_obs) (first - 1)) (\<lambda>emax.
           and_then (SpectrumEnergyGroup_init 0 0 (first - 1) ''underflow'' emin emax)
             (\<lambda>group. Inr (1, [group]))))
         else Inr (0, []))
        (\<lambda>(egi1, groups1).
      and_then
        (normal_groups_loop ebounds_obs lower_indices [0..<length ebounds - 1]
           egi1 groups1)
        (\<lambda>(egi2, groups2).
      and_then (getitem lower_indices (- 1)) (\<lambda>maxbin.
      and_then
        (if maxbin < int (nbins ebounds_obs) then
           and_then (getitem (lower_bounds ebounds_obs) maxbin) (\<lambda>emin.
           and_then (getitem (upper_bounds ebounds_obs) (- 1)) (\<lambda>emax.
           and_then
             (SpectrumEnergyGroup_init egi2 maxbin (int (nbins ebounds_obs) - 1)
                ''overflow'' emin emax)
             (\<lambda>group. Inr (groups2 @ [group]))))
         else Inr groups2)
        (\<lambda>groups3. Inr (self\<lparr>groups := Some groups3\<rparr>)))))))))"

subsection \<open>The fixtures of the test suite\<close>

text \<open>
  \<^verbatim>\<open>TestSpectrumEnergyGroups.groups\<close> of \<^verbatim>\<open>test_energy_group.py\<close>: four normal groups
  with group indices 0, 1, 5, 6.
\<close>

definition fixture_groups :: SpectrumEnergyGroups where
  "fixture_groups =
     [\<lparr>energy_group_idx = 0, bin_idx_min = 10, bin_idx_max = 20, bin_type = ''normal'',
        energy_min = 100 * TeV, energy_max = 210 * TeV\<rparr>,
      \<lparr>energy_group_idx = 1, bin_idx_min = 21, bin_idx_max = 25, bin_type = ''normal'',
        energy_min = 210 * TeV, energy_max = 260 * TeV\<rparr>,
      \<lparr>energy_group_idx = 5, bin_idx_min = 26, bin_idx_max = 26, bin_type = ''normal'',
        energy_min = 260 * TeV, energy_max = 270 * TeV\<rparr>,
      \<lparr>energy_group_idx = 6, bin_idx_min = 27, bin_idx_max = 30, bin_type = ''normal'',
        energy_min = 270 * TeV, energy_max = 300 * TeV\<rparr>]"

text \<open>
  \<^verbatim>\<open>TestSpectrumEnergyGroupMaker.obs\<close>: nine bins of width 1 TeV with the edges
  \<^verbatim>\<open>np.arange(1, 11) * u.TeV\<close>.
\<close>

definition fixture_obs :: SpectrumObservation where
  "fixture_obs =
     \<lparr>e_reco = [(1 * TeV, 2 * TeV), (2 * TeV, 3 * TeV), (3 * TeV, 4 * TeV),
                (4 * TeV, 5 * TeV), (5 * TeV, 6 * TeV), (6 * TeV, 7 * TeV),
                (7 * TeV, 8 * TeV), (8 * TeV, 9 * TeV), (9 * TeV, 10 * TeV)]\<rparr>"

section \<open>Properties\<close>

subsection \<open>Auxiliary facts\<close>

lemma and_then_Inl: "and_then (Inl e) f = Inl e"
  by (simp add: and_then_def)

lemma and_then_Inr: "and_then (Inr v) f = f v"
  by (simp add: and_then_def)

lemma and_then_eq_Inr: "and_then r f = Inr y \<longleftrightarrow> (\<exists>v. r = Inr v \<and> f v = Inr y)"
  by (cases r) (simp_all add: and_then_def)

lemma getitem_first: "xs \<noteq> [] \<Longrightarrow> getitem xs 0 = Inr (hd xs)"
  by (cases xs) (simp_all add: getitem_def)

lemma getitem_last: "xs \<noteq> [] \<Longrightarrow> getitem xs (- 1) = Inr (last xs)"
  by (simp add: getitem_def last_conv_nth nat_diff_distrib' of_nat_diff)

lemma getitem_Nil: "getitem [] i = Inl Index_out_of_bounds"
  by (auto simp: getitem_def)

lemma from_total_table_loop_step:
  assumes "group_rows table egi = gt" and "gt \<noteq> []"
  shows "from_total_table_loop table (egi # rest) acc =
     (if 1 < card (set (map row_bin_type gt)) then Inl Inconsistent_bin_type
      else and_then
        (SpectrumEnergyGroup_init egi (row_bin_idx (hd gt)) (row_bin_idx (last gt))
           (row_bin_type (hd gt)) (row_energy_min (hd gt)) (row_energy_max (last gt)))
        (\<lambda>g. from_total_table_loop table rest (acc @ [g])))"
  using assms by (simp add: getitem_first getitem_last and_then_Inr hd_map last_map)

lemma from_total_table_loop_empty_group:
  assumes "group_rows table egi = []"
  shows "from_total_table_loop table (egi # rest) acc = Inl Index_out_of_bounds"
  using assms by (simp add: getitem_Nil and_then_Inl)

declare from_total_table_loop.simps(2) [simp del]

lemma loop_group_idx:
  "from_total_table_loop table idxs acc = Inr gs \<Longrightarrow>
   map energy_group_idx gs = map energy_group_idx acc @ idxs"
proof (induction idxs arbitrary: acc)
  case Nil
  then show ?case by simp
next
  case (Cons egi rest)
  let ?gt = "group_rows table egi"
  show ?case
  proof (cases "?gt = []")
    case True
    with Cons.prems show ?thesis
      by (simp add: from_total_table_loop_empty_group)
  next
    case False
    from Cons.prems obtain g where
      g: "SpectrumEnergyGroup_init egi (row_bin_idx (hd ?gt)) (row_bin_idx (last ?gt))
           (row_bin_type (hd ?gt)) (row_energy_min (hd ?gt)) (row_energy_max (last ?gt)) = Inr g"
      and rest: "from_total_table_loop table rest (acc @ [g]) = Inr gs"
      by (auto simp: from_total_table_loop_step [OF refl False] and_then_eq_Inr
          split: if_splits)
    from g have "energy_group_idx g = egi"
      by (auto simp: SpectrumEnergyGroup_init_def split: if_splits)
    with Cons.IH [OF rest] show ?thesis by simp
  qed
qed

lemma unique_strict_sorted: "sorted_wrt (<) (unique xs)"
  by (simp add: unique_def strict_sorted_iff)

lemma set_unique: "set (unique xs) = set xs"
  by (simp add: unique_def)

lemma group_rows_subset: "set (group_rows table egi) \<subseteq> set table"
  by (auto simp: group_rows_def)

lemma group_rows_nonempty:
  "egi \<in> row_energy_group_idx ` set table \<Longrightarrow> group_rows table egi \<noteq> []"
  by (auto simp: group_rows_def filter_empty_conv)

lemma inconsistent_iff:
  "1 < card (set (map row_bin_type (group_rows table egi))) \<longleftrightarrow>
   (\<exists>r\<in>set table. \<exists>r'\<in>set table. row_energy_group_idx r = egi
      \<and> row_energy_group_idx r' = egi \<and> row_bin_type r \<noteq> row_bin_type r')"
proof -
  let ?S = "set (map row_bin_type (group_rows table egi))"
  have "finite ?S" by simp
  then have "\<not> 1 < card ?S \<longleftrightarrow> (\<forall>a\<in>?S. \<forall>b\<in>?S. a = b)"
    using card_le_Suc0_iff_eq [of ?S] by (simp add: not_less)
  then show ?thesis
    by (auto simp: group_rows_def)
qed

lemma init_valid:
  "bt \<in> set valid_bin_types \<Longrightarrow>
   SpectrumEnergyGroup_init egi bmin bmax bt emin emax =
     Inr \<lparr>energy_group_idx = egi, bin_idx_min = bmin, bin_idx_max = bmax,
           bin_type = bt, energy_min = emin, energy_max = emax\<rparr>"
  by (simp add: SpectrumEnergyGroup_init_def)



lemma loop_returns:
  assumes "set idxs \<subseteq> row_energy_group_idx ` set table"
    and "\<forall>egi\<in>set idxs. \<not> 1 < card (set (map row_bin_type (group_rows table egi)))"
    and "\<forall>r\<in>set table. row_bin_type r \<in> set valid_bin_types"
  shows "\<exists>gs. from_total_table_loop table idxs acc = Inr gs"
  using assms(1,2)
proof (induction idxs arbitrary: acc)
  case Nil
  then show ?case by simp
next
  case (Cons egi rest)
  let ?gt = "group_rows table egi"
  have ne: "?gt \<noteq> []"
    using Cons.prems(1) by (simp add: group_rows_nonempty)
  then have "hd ?gt \<in> set table"
    using group_rows_subset [of table egi] hd_in_set by blast
  with assms(3) have valid: "row_bin_type (hd ?gt) \<in> set valid_bin_types"
    by blast
  from Cons.prems have "\<not> 1 < card (set (map row_bin_type ?gt))"
    by simp
  with valid Cons.IH Cons.prems show ?case
    by (simp add: from_total_table_loop_step [OF refl ne] init_valid and_then_Inr)
qed


lemma bin_rows_nonempty: "bin_idx_min g \<le> bin_idx_max g \<Longrightarrow> bin_rows g \<noteq> []"
  by (simp add: bin_rows_def)

lemma hd_upto: "i \<le> j \<Longrightarrow> hd [i..j] = i"
  by (simp add: upto_rec1)

lemma last_upto: "i \<le> j \<Longrightarrow> last [i..j] = j"
  by (simp add: upto_rec2)

lemma hd_bin_rows:
  "bin_idx_min g \<le> bin_idx_max g \<Longrightarrow>
   hd (bin_rows g) = \<lparr>row_bin_idx = bin_idx_min g, row_energy_group_idx = energy_group_idx g,
      row_bin_type = bin_type g, row_energy_min = energy_min g, row_energy_max = energy_max g\<rparr>"
  by (simp add: bin_rows_def hd_map hd_upto)

lemma last_bin_rows:
  "bin_idx_min g \<le> bin_idx_max g \<Longrightarrow>
   last (bin_rows g) = \<lparr>row_bin_idx = bin_idx_max g, row_energy_group_idx = energy_group_idx g,
      row_bin_type = bin_type g, row_energy_min = energy_min g, row_energy_max = energy_max g\<rparr>"
  by (simp add: bin_rows_def last_map last_upto)

lemma bin_types_bin_rows:
  "bin_idx_min g \<le> bin_idx_max g \<Longrightarrow>
   row_bin_type ` set (bin_rows g) = {bin_type g}"
  by (simp add: bin_rows_def image_image image_constant_conv)

lemma group_idx_bin_rows:
  "bin_idx_min g \<le> bin_idx_max g \<Longrightarrow>
   row_energy_group_idx ` set (bin_rows g) = {energy_group_idx g}"
  by (simp add: bin_rows_def image_image image_constant_conv)

lemma group_rows_bin_rows:
  "group_rows (bin_rows g) egi = (if energy_group_idx g = egi then bin_rows g else [])"
  by (simp add: group_rows_def bin_rows_def filter_map comp_def)

lemma group_rows_append:
  "group_rows (xs @ ys) egi = group_rows xs egi @ group_rows ys egi"
  by (simp add: group_rows_def)

lemma group_rows_Nil: "group_rows [] egi = []"
  by (simp add: group_rows_def)

lemma group_rows_concat_other:
  "egi \<notin> energy_group_idx ` set gs \<Longrightarrow> group_rows (concat (map bin_rows gs)) egi = []"
  by (induction gs) (auto simp: group_rows_append group_rows_bin_rows group_rows_Nil)

lemma group_rows_concat:
  "distinct (map energy_group_idx gs) \<Longrightarrow> g \<in> set gs \<Longrightarrow>
   group_rows (concat (map bin_rows gs)) (energy_group_idx g) = bin_rows g"
proof (induction gs)
  case Nil
  then show ?case by simp
next
  case (Cons a gs)
  show ?case
  proof (cases "g = a")
    case True
    with Cons.prems show ?thesis
      by (simp add: group_rows_append group_rows_bin_rows group_rows_concat_other)
  next
    case False
    with Cons.prems have "g \<in> set gs" and "energy_group_idx a \<noteq> energy_group_idx g"
      by auto
    with Cons show ?thesis
      by (simp add: group_rows_append group_rows_bin_rows)
  qed
qed

lemma group_eq:
  "\<lparr>energy_group_idx = energy_group_idx g, bin_idx_min = bin_idx_min g,
    bin_idx_max = bin_idx_max g, bin_type = bin_type g, energy_min = energy_min g,
    energy_max = energy_max g\<rparr> = (g :: SpectrumEnergyGroup)"
  by simp

lemma loop_rebuilds:
  assumes "\<forall>g\<in>set gs. group_rows table (energy_group_idx g) = bin_rows g
              \<and> bin_idx_min g \<le> bin_idx_max g \<and> bin_type g \<in> set valid_bin_types"
  shows "from_total_table_loop table (map energy_group_idx gs) acc = Inr (acc @ gs)"
  using assms
proof (induction gs arbitrary: acc)
  case Nil
  then show ?case by simp
next
  case (Cons g gs)
  from Cons.prems have rows: "group_rows table (energy_group_idx g) = bin_rows g"
    and range: "bin_idx_min g \<le> bin_idx_max g"
    and valid: "bin_type g \<in> set valid_bin_types"
    by simp_all
  have ne: "bin_rows g \<noteq> []"
    using range by (rule bin_rows_nonempty)
  have "from_total_table_loop table (energy_group_idx g # map energy_group_idx gs) acc
        = from_total_table_loop table (map energy_group_idx gs) (acc @ [g])"
    using range valid
    by (simp add: from_total_table_loop_step [OF rows ne] bin_types_bin_rows
        hd_bin_rows last_bin_rows init_valid and_then_Inr group_eq)
  with Cons show ?case by simp
qed

lemma group_idx_column:
  "\<forall>g\<in>set gs. bin_idx_min g \<le> bin_idx_max g \<Longrightarrow>
   set (map row_energy_group_idx (concat (map bin_rows gs))) = energy_group_idx ` set gs"
proof (induction gs)
  case Nil
  then show ?case by simp
next
  case (Cons g gs)
  then show ?case
    by (simp add: group_idx_bin_rows image_Un)
qed

lemma from_total_table_of_bin_rows:
  assumes sorted: "sorted_wrt (<) (map energy_group_idx gs)"
    and ok: "\<forall>g\<in>set gs. bin_idx_min g \<le> bin_idx_max g \<and> bin_type g \<in> set valid_bin_types"
  shows "from_total_table (concat (map bin_rows gs)) = Inr gs"
proof -
  let ?table = "concat (map bin_rows gs)"
  have dist: "distinct (map energy_group_idx gs)"
    using sorted by (simp add: strict_sorted_iff)
  have nonempty: "\<forall>g\<in>set gs. bin_idx_min g \<le> bin_idx_max g"
    using ok by simp
  have idxs: "unique (map row_energy_group_idx ?table) = map energy_group_idx gs"
  proof (rule sorted_distinct_set_unique)
    show "sorted (unique (map row_energy_group_idx ?table))"
      and "distinct (unique (map row_energy_group_idx ?table))"
      using unique_strict_sorted [of "map row_energy_group_idx ?table"]
      by (simp_all only: strict_sorted_iff)
    show "sorted (map energy_group_idx gs)"
      using sorted by (simp only: strict_sorted_iff)
    show "distinct (map energy_group_idx gs)"
      by (rule dist)
    show "set (unique (map row_energy_group_idx ?table)) = set (map energy_group_idx gs)"
      using group_idx_column [OF nonempty] by (simp add: set_unique)
  qed
  have "\<forall>g\<in>set gs. group_rows ?table (energy_group_idx g) = bin_rows g
          \<and> bin_idx_min g \<le> bin_idx_max g \<and> bin_type g \<in> set valid_bin_types"
    using ok dist by (simp add: group_rows_concat)
  then have "from_total_table_loop ?table (map energy_group_idx gs) [] = Inr ([] @ gs)"
    by (rule loop_rebuilds)
  with idxs show ?thesis
    by (simp add: from_total_table_def)
qed

lemma consistent_groups:
  assumes "\<forall>r\<in>set table. \<forall>r'\<in>set table.
             row_energy_group_idx r = row_energy_group_idx r' \<longrightarrow>
             row_bin_type r = row_bin_type r'"
  shows "\<not> 1 < card (set (map row_bin_type (group_rows table egi)))"
proof
  assume "1 < card (set (map row_bin_type (group_rows table egi)))"
  then obtain r r' where rows: "r \<in> set table" "r' \<in> set table"
    "row_energy_group_idx r = egi" "row_energy_group_idx r' = egi"
    and differ: "row_bin_type r \<noteq> row_bin_type r'"
    unfolding inconsistent_iff by blast
  from rows have "row_energy_group_idx r = row_energy_group_idx r'"
    by simp
  with assms rows(1,2) have "row_bin_type r = row_bin_type r'"
    by blast
  with differ show False by simp
qed




lemma unique_subset:
  "set (unique (map row_energy_group_idx table)) \<subseteq> row_energy_group_idx ` set table"
  by (simp add: set_unique)







lemma bin_rows_single_bin:
  "bin_idx_min g = bin_idx_max g \<Longrightarrow>
   bin_rows g = [\<lparr>row_bin_idx = bin_idx_min g, row_energy_group_idx = energy_group_idx g,
      row_bin_type = bin_type g, row_energy_min = energy_min g, row_energy_max = energy_max g\<rparr>]"
  by (simp add: bin_rows_def)

lemma sorted_wrt_map_int_upt: "sorted_wrt (<) (map int [0..<n])"
  by (simp add: sorted_wrt_map sorted_wrt_iff_nth_less)

lemma find_list_idx_loop_none:
  "\<forall>g\<in>set gs. \<not> contains_energy g e \<Longrightarrow>
   find_list_idx_loop (enumerate n gs) e = Inl (No_group_found e)"
  by (induction gs arbitrary: n) simp_all

lemma find_list_idx_loop_first:
  "\<forall>x\<in>set pre. \<not> contains_energy x e \<Longrightarrow> contains_energy g e \<Longrightarrow>
   find_list_idx_loop (enumerate n (pre @ g # post)) e = Inr (n + length pre)"
  by (induction pre arbitrary: n) simp_all

lemma find_list_idx_cases:
  "(find_list_idx gs e = Inl (No_group_found e) \<and> (\<forall>g\<in>set gs. \<not> contains_energy g e))
   \<or> (\<exists>pre g post. gs = pre @ g # post \<and> contains_energy g e
         \<and> (\<forall>x\<in>set pre. \<not> contains_energy x e)
         \<and> find_list_idx gs e = Inr (length pre))"
proof (cases "\<exists>g\<in>set gs. contains_energy g e")
  case True
  then have "\<exists>pre g post. gs = pre @ g # post \<and> contains_energy g e
      \<and> (\<forall>x\<in>set pre. \<not> contains_energy x e)"
    by (rule split_list_first_prop)
  then obtain pre g post where split: "gs = pre @ g # post" "contains_energy g e"
    "\<forall>x\<in>set pre. \<not> contains_energy x e"
    by blast
  then have "find_list_idx gs e = Inr (length pre)"
    using find_list_idx_loop_first [of pre e g 0 post] by (simp add: find_list_idx_def)
  with split show ?thesis by blast
next
  case False
  then have none: "\<forall>g\<in>set gs. \<not> contains_energy g e"
    by simp
  then have "find_list_idx gs e = Inl (No_group_found e)"
    unfolding find_list_idx_def by (rule find_list_idx_loop_none)
  with none show ?thesis by simp
qed

lemma find_list_idx_Inr_iff:
  "find_list_idx gs e = Inr i \<longleftrightarrow>
   i < length gs \<and> contains_energy (gs ! i) e \<and> (\<forall>j<i. \<not> contains_energy (gs ! j) e)"
proof
  assume ret: "find_list_idx gs e = Inr i"
  with find_list_idx_cases [of gs e] obtain pre g post where
    split: "gs = pre @ g # post" and g: "contains_energy g e"
    and pre: "\<forall>x\<in>set pre. \<not> contains_energy x e" and i: "i = length pre"
    by auto
  have "\<forall>j<i. \<not> contains_energy (gs ! j) e"
    using pre by (simp add: split i nth_append)
  with g show "i < length gs \<and> contains_energy (gs ! i) e \<and> (\<forall>j<i. \<not> contains_energy (gs ! j) e)"
    by (simp add: split i)
next
  assume first: "i < length gs \<and> contains_energy (gs ! i) e
    \<and> (\<forall>j<i. \<not> contains_energy (gs ! j) e)"
  then have split: "gs = take i gs @ gs ! i # drop (Suc i) gs"
    by (simp add: id_take_nth_drop)
  have "\<forall>x\<in>set (take i gs). \<not> contains_energy x e"
    using first by (auto simp: in_set_conv_nth)
  with first have "find_list_idx_loop (enumerate 0 (take i gs @ gs ! i # drop (Suc i) gs)) e
      = Inr (0 + length (take i gs))"
    by (intro find_list_idx_loop_first) simp_all
  with first show "find_list_idx gs e = Inr i"
    unfolding find_list_idx_def by (simp add: split [symmetric])
qed

lemma find_list_idx_Inl_iff:
  "find_list_idx gs e = Inl err \<longleftrightarrow>
   err = No_group_found e \<and> (\<forall>g\<in>set gs. \<not> contains_energy g e)"
  using find_list_idx_cases [of gs e] by auto

lemma physical_quantity: "u \<noteq> 0 \<Longrightarrow> physical (quantity u e) = e"
  by (simp add: physical_def quantity_def)

lemma physical_converted:
  "a \<noteq> 0 \<Longrightarrow> physical \<lparr>q_value = q_value (quantity a e), q_unit = a\<rparr> = e"
  by (simp add: physical_def quantity_def)

lemma bin_idx_array_int64:
  "int64 (bin_idx_min g) \<Longrightarrow> int64 (bin_idx_max g + 1) \<Longrightarrow>
   bin_idx_array g = Inr [bin_idx_min g .. bin_idx_max g]"
  by (simp add: bin_idx_array_def)

lemma bin_table_int64:
  assumes "int64 (bin_idx_min g)" and "int64 (bin_idx_max g + 1)"
  shows "bin_table (g, u) =
     Inr \<lparr>bt_rows =
            map (\<lambda>b. \<lparr>cell_bin_idx = b, cell_energy_group_idx = energy_group_idx g,
                       cell_bin_type = bin_type g,
                       cell_energy_min = energy_min g / unit_of_energy_min u,
                       cell_energy_max = energy_max g / unit_of_energy_max u\<rparr>)
                [bin_idx_min g .. bin_idx_max g],
          bt_energy_min_unit = unit_of_energy_min u,
          bt_energy_max_unit = unit_of_energy_max u\<rparr>"
  using assms
  by (simp add: bin_table_def Let_def bin_idx_array_int64 and_then_Inr quantity_def)

lemma table_quantities_bin_table:
  assumes "a \<noteq> 0" and "b \<noteq> 0"
  shows "table_quantities
     \<lparr>bt_rows =
        map (\<lambda>i. \<lparr>cell_bin_idx = i, cell_energy_group_idx = energy_group_idx g,
                   cell_bin_type = bin_type g,
                   cell_energy_min = energy_min g / a,
                   cell_energy_max = energy_max g / b\<rparr>)
            [bin_idx_min g .. bin_idx_max g],
      bt_energy_min_unit = a, bt_energy_max_unit = b\<rparr> = bin_rows g"
  using assms by (simp add: table_quantities_def bin_rows_def physical_def comp_def)

lemma table_quantities_rows:
  "table_quantities \<lparr>bt_rows = rs, bt_energy_min_unit = a, bt_energy_max_unit = b\<rparr> =
   map (\<lambda>c. \<lparr>row_bin_idx = cell_bin_idx c, row_energy_group_idx = cell_energy_group_idx c,
              row_bin_type = cell_bin_type c,
              row_energy_min = cell_energy_min c * a,
              row_energy_max = cell_energy_max c * b\<rparr>) rs"
  by (simp add: table_quantities_def physical_def)

lemma bin_tables_same_units:
  assumes "\<forall>obj\<in>set objs. int64 (bin_idx_min (fst obj)) \<and> int64 (bin_idx_max (fst obj) + 1)
             \<and> unit_of_energy_min (snd obj) = a \<and> unit_of_energy_max (snd obj) = b"
  shows "\<exists>ts. bin_tables objs = Inr ts \<and> length ts = length objs
           \<and> (\<forall>t\<in>set ts. bt_energy_min_unit t = a \<and> bt_energy_max_unit t = b)
           \<and> concat (map bt_rows ts) =
               concat (map (\<lambda>obj.
                 map (\<lambda>i. \<lparr>cell_bin_idx = i,
                            cell_energy_group_idx = energy_group_idx (fst obj),
                            cell_bin_type = bin_type (fst obj),
                            cell_energy_min = energy_min (fst obj) / a,
                            cell_energy_max = energy_max (fst obj) / b\<rparr>)
                     [bin_idx_min (fst obj) .. bin_idx_max (fst obj)]) objs)"
  using assms
proof (induction objs)
  case Nil
  then show ?case by simp
next
  case (Cons obj objs)
  obtain g u where obj: "obj = (g, u)"
    by (cases obj)
  from Cons.prems have here: "int64 (bin_idx_min g)" "int64 (bin_idx_max g + 1)"
    "unit_of_energy_min u = a" "unit_of_energy_max u = b"
    by (simp_all add: obj)
  from Cons obtain ts where ts: "bin_tables objs = Inr ts" "length ts = length objs"
    "\<forall>t\<in>set ts. bt_energy_min_unit t = a \<and> bt_energy_max_unit t = b"
    "concat (map bt_rows ts) =
               concat (map (\<lambda>obj.
                 map (\<lambda>i. \<lparr>cell_bin_idx = i,
                            cell_energy_group_idx = energy_group_idx (fst obj),
                            cell_bin_type = bin_type (fst obj),
                            cell_energy_min = energy_min (fst obj) / a,
                            cell_energy_max = energy_max (fst obj) / b\<rparr>)
                     [bin_idx_min (fst obj) .. bin_idx_max (fst obj)]) objs)"
    by auto
  show ?case
    using here ts by (simp add: obj bin_table_int64 and_then_Inr)
qed


lemma read_stacked_bin_tables:
  assumes nonempty: "objs \<noteq> []"
    and same: "\<forall>obj\<in>set objs. int64 (bin_idx_min (fst obj)) \<and> int64 (bin_idx_max (fst obj) + 1)
             \<and> unit_of_energy_min (snd obj) = a \<and> unit_of_energy_max (snd obj) = b"
    and units: "a \<noteq> 0" "b \<noteq> 0"
  shows "\<exists>t. to_total_table objs = Inr t
           \<and> table_quantities t = concat (map bin_rows (map fst objs))"
proof -
  from same obtain ts where ts: "bin_tables objs = Inr ts" "length ts = length objs"
    and ts_units: "\<forall>t\<in>set ts. bt_energy_min_unit t = a \<and> bt_energy_max_unit t = b"
    and rows: "concat (map bt_rows ts) =
               concat (map (\<lambda>obj.
                 map (\<lambda>i. \<lparr>cell_bin_idx = i,
                            cell_energy_group_idx = energy_group_idx (fst obj),
                            cell_bin_type = bin_type (fst obj),
                            cell_energy_min = energy_min (fst obj) / a,
                            cell_energy_max = energy_max (fst obj) / b\<rparr>)
                     [bin_idx_min (fst obj) .. bin_idx_max (fst obj)]) objs)"
    using bin_tables_same_units [of objs a b] by blast
  from nonempty ts(2) have ne: "ts \<noteq> []"
    by auto
  then have "last ts \<in> set ts"
    by (rule last_in_set)
  with ts_units have last: "bt_energy_min_unit (last ts) = a" "bt_energy_max_unit (last ts) = b"
    by simp_all
  let ?t = "\<lparr>bt_rows = concat (map bt_rows ts), bt_energy_min_unit = a,
             bt_energy_max_unit = b\<rparr>"
  have stacked: "to_total_table objs = Inr ?t"
    using ne by (simp add: to_total_table_def ts(1) and_then_Inr table_vstack_def last)
  have "table_quantities ?t = concat (map bin_rows (map fst objs))"
    unfolding table_quantities_rows rows
    using units by (simp add: map_concat comp_def bin_rows_def)
  with stacked show ?thesis
    by blast
qed

lemma from_group_table_rows_converted:
  assumes "a \<noteq> 0" and "b \<noteq> 0"
    and "gt_energy_min_unit table = a" and "gt_energy_max_unit table = b"
    and "\<forall>obj\<in>set objs. bin_type (fst obj) \<in> set valid_bin_types
           \<and> unit_of_energy_min (snd obj) \<noteq> 0 \<and> unit_of_energy_max (snd obj) \<noteq> 0"
  shows "from_group_table_rows table
     (map (\<lambda>d. \<lparr>gcell_energy_group_idx = d_energy_group_idx d,
                 gcell_bin_idx_min = d_bin_idx_min d,
                 gcell_bin_idx_max = d_bin_idx_max d,
                 gcell_bin_type = d_bin_type d,
                 gcell_energy_min = q_value (quantity a (physical (d_energy_min d))),
                 gcell_energy_max = q_value (quantity b (physical (d_energy_max d)))\<rparr>)
          (map to_dict objs)) = Inr (map fst objs)"
  using assms(5)
proof (induction objs)
  case Nil
  then show ?case by simp
next
  case (Cons obj objs)
  obtain g u where obj: "obj = (g, u)"
    by (cases obj)
  from Cons.prems have here: "bin_type g \<in> set valid_bin_types"
    "unit_of_energy_min u \<noteq> 0" "unit_of_energy_max u \<noteq> 0"
    by (simp_all add: obj)
  from Cons have rest: "from_group_table_rows table
     (map (\<lambda>d. \<lparr>gcell_energy_group_idx = d_energy_group_idx d,
                 gcell_bin_idx_min = d_bin_idx_min d,
                 gcell_bin_idx_max = d_bin_idx_max d,
                 gcell_bin_type = d_bin_type d,
                 gcell_energy_min = q_value (quantity a (physical (d_energy_min d))),
                 gcell_energy_max = q_value (quantity b (physical (d_energy_max d)))\<rparr>)
          (map to_dict objs)) = Inr (map fst objs)"
    by simp
  have "from_dict (table_row_to_dict table
      \<lparr>gcell_energy_group_idx = d_energy_group_idx (to_dict obj),
       gcell_bin_idx_min = d_bin_idx_min (to_dict obj),
       gcell_bin_idx_max = d_bin_idx_max (to_dict obj),
       gcell_bin_type = d_bin_type (to_dict obj),
       gcell_energy_min = q_value (quantity a (physical (d_energy_min (to_dict obj)))),
       gcell_energy_max = q_value (quantity b (physical (d_energy_max (to_dict obj))))\<rparr>)
     = Inr g"
    using here assms(1-4)
    by (simp add: obj to_dict_def Let_def table_row_to_dict_def from_dict_def
        physical_converted physical_quantity init_valid group_eq)
  with rest show ?case
    by (simp add: and_then_Inr obj)
qed

subsection \<open>SpectrumEnergyGroup\<close>

text \<open>
  Claim C4. For every group \<open>g\<close> and every energy \<open>e\<close>, \<open>contains_energy g e\<close> is true
  exactly when \<open>energy_min g \<le> e\<close> and \<open>e < energy_max g\<close>. The interval is half-open:
  the upper edge \<open>energy_max g\<close> is never contained, and the lower edge \<open>energy_min g\<close>
  is contained in every group that satisfies the data model's invariant
  \<open>energy_min g < energy_max g\<close>.
\<close>

theorem contains_energy_half_open:
  "(contains_energy g e \<longleftrightarrow> energy_min g \<le> e \<and> e < energy_max g)
   \<and> \<not> contains_energy g (energy_max g)
   \<and> (energy_min g < energy_max g \<longrightarrow> contains_energy g (energy_min g))"
  by (simp add: contains_energy_def)

theorem contains_energy_half_open_witness:
  "energy_min \<lparr>energy_group_idx = 3, bin_idx_min = 10, bin_idx_max = 20,
       bin_type = ''normal'', energy_min = 100, energy_max = 200\<rparr>
     < energy_max \<lparr>energy_group_idx = 3, bin_idx_min = 10, bin_idx_max = 20,
       bin_type = ''normal'', energy_min = 100, energy_max = 200\<rparr>
   \<and> contains_energy \<lparr>energy_group_idx = 3, bin_idx_min = 10, bin_idx_max = 20,
       bin_type = ''normal'', energy_min = 100, energy_max = 200\<rparr> 100
   \<and> contains_energy \<lparr>energy_group_idx = 3, bin_idx_min = 10, bin_idx_max = 20,
       bin_type = ''normal'', energy_min = 100, energy_max = 200\<rparr> 199
   \<and> \<not> contains_energy \<lparr>energy_group_idx = 3, bin_idx_min = 10, bin_idx_max = 20,
       bin_type = ''normal'', energy_min = 100, energy_max = 200\<rparr> 99
   \<and> \<not> contains_energy \<lparr>energy_group_idx = 3, bin_idx_min = 10, bin_idx_max = 20,
       bin_type = ''normal'', energy_min = 100, energy_max = 200\<rparr> 200"
  using contains_energy_half_open
    [of "\<lparr>energy_group_idx = 3, bin_idx_min = 10, bin_idx_max = 20,
          bin_type = ''normal'', energy_min = 100, energy_max = 200\<rparr>" 100]
    contains_energy_half_open
    [of "\<lparr>energy_group_idx = 3, bin_idx_min = 10, bin_idx_max = 20,
          bin_type = ''normal'', energy_min = 100, energy_max = 200\<rparr>" 199]
    contains_energy_half_open
    [of "\<lparr>energy_group_idx = 3, bin_idx_min = 10, bin_idx_max = 20,
          bin_type = ''normal'', energy_min = 100, energy_max = 200\<rparr>" 99]
  by simp

text \<open>
  Claim C6. Constructing a group with a bin type outside
  \<open>{normal, underflow, overflow}\<close> raises a ValueError; with a bin type of that set the
  construction succeeds and the six fields hold the six arguments unchanged.
\<close>

theorem SpectrumEnergyGroup_init_validates:
  "(bt \<notin> {''normal'', ''underflow'', ''overflow''} \<longrightarrow>
      (\<exists>e. SpectrumEnergyGroup_init egi bmin bmax bt emin emax = Inl e
           \<and> exception_class e = ValueError))
   \<and> (bt \<in> {''normal'', ''underflow'', ''overflow''} \<longrightarrow>
      (\<exists>g. SpectrumEnergyGroup_init egi bmin bmax bt emin emax = Inr g
           \<and> energy_group_idx g = egi \<and> bin_idx_min g = bmin \<and> bin_idx_max g = bmax
           \<and> bin_type g = bt \<and> energy_min g = emin \<and> energy_max g = emax))"
  by (auto simp: SpectrumEnergyGroup_init_def valid_bin_types_def)

theorem SpectrumEnergyGroup_init_validates_witness:
  "''spam'' \<notin> {''normal'', ''underflow'', ''overflow''}
   \<and> SpectrumEnergyGroup_init 3 10 20 ''spam'' 100 200 = Inl (Invalid_bin_type ''spam'')
   \<and> ''normal'' \<in> {''normal'', ''underflow'', ''overflow''}
   \<and> SpectrumEnergyGroup_init 3 10 20 ''normal'' 100 200
       = Inr \<lparr>energy_group_idx = 3, bin_idx_min = 10, bin_idx_max = 20,
              bin_type = ''normal'', energy_min = 100, energy_max = 200\<rparr>"
  using SpectrumEnergyGroup_init_validates [of "''spam''" 3 10 20 100 200]
    SpectrumEnergyGroup_init_validates [of "''normal''" 3 10 20 100 200]
  by (auto simp: SpectrumEnergyGroup_init_def valid_bin_types_def)

subsection \<open>compute\_groups\_fixed on the observation with nine bins from 1 to 10 TeV\<close>

text \<open>
  Claim C1. For the boundaries 1.25, 4.5 and 6.5 TeV over the nine bins of width 1 TeV
  from 1 to 10 TeV of \<open>fixture_obs\<close>, \<open>compute_groups_fixed\<close> sets the groups to exactly four groups, in
  this order: underflow with bins 0 to 0 and energies 1 to 2 TeV, normal with bins 1 to 3
  and energies 2 to 5 TeV, normal with bins 4 to 5 and energies 5 to 7 TeV, overflow with
  bins 6 to 8 and energies 7 to 10 TeV; their group indices are 0, 1, 2, 3.
\<close>

theorem compute_groups_fixed_inside_range:
  "compute_groups_fixed
     (SpectrumEnergyGroupMaker_init fixture_obs)
     [1.25 * TeV, 4.5 * TeV, 6.5 * TeV]
   = Inr \<lparr>obs = fixture_obs,
          groups = Some
            [\<lparr>energy_group_idx = 0, bin_idx_min = 0, bin_idx_max = 0,
               bin_type = ''underflow'', energy_min = 1 * TeV, energy_max = 2 * TeV\<rparr>,
             \<lparr>energy_group_idx = 1, bin_idx_min = 1, bin_idx_max = 3,
               bin_type = ''normal'', energy_min = 2 * TeV, energy_max = 5 * TeV\<rparr>,
             \<lparr>energy_group_idx = 2, bin_idx_min = 4, bin_idx_max = 5,
               bin_type = ''normal'', energy_min = 5 * TeV, energy_max = 7 * TeV\<rparr>,
             \<lparr>energy_group_idx = 3, bin_idx_min = 6, bin_idx_max = 8,
               bin_type = ''overflow'', energy_min = 7 * TeV, energy_max = 10 * TeV\<rparr>]\<rparr>"
  by code_simp

text \<open>
  Claim C2. For the boundaries -1, 6 and 100 TeV over the same nine bins, the first
  boundary is located at bin 0 and the last at \<open>nbins\<close>, so that the groups are exactly
  two normal groups covering the whole observation: bins 0 to 4 with energies 1 to 6 TeV
  and bins 5 to 8 with energies 6 to 10 TeV. There is no underflow and no overflow group.
\<close>

theorem compute_groups_fixed_out_of_bounds:
  "compute_groups_fixed
     (SpectrumEnergyGroupMaker_init fixture_obs)
     [- 1 * TeV, 6 * TeV, 100 * TeV]
   = Inr \<lparr>obs = fixture_obs,
          groups = Some
            [\<lparr>energy_group_idx = 0, bin_idx_min = 0, bin_idx_max = 4,
               bin_type = ''normal'', energy_min = 1 * TeV, energy_max = 6 * TeV\<rparr>,
             \<lparr>energy_group_idx = 1, bin_idx_min = 5, bin_idx_max = 8,
               bin_type = ''normal'', energy_min = 6 * TeV, energy_max = 10 * TeV\<rparr>]\<rparr>"
  by code_simp

subsection \<open>from\_total\_table\<close>

text \<open>
  Claim C10. \<open>from_total_table\<close> visits the sorted distinct values of the
  \<^verbatim>\<open>energy_group_idx\<close> column: whenever it returns, the group indices of the returned
  groups are exactly \<open>unique\<close> of that column, hence strictly ascending, whatever the
  order of the table's rows. It does return whenever every bin type of the table is valid
  and the rows of every group agree on it.
\<close>

theorem from_total_table_sorted_by_group_idx:
  "(from_total_table table = Inr gs \<longrightarrow>
      map energy_group_idx gs = unique (map row_energy_group_idx table)
      \<and> sorted_wrt (<) (map energy_group_idx gs))
   \<and> ((\<forall>r\<in>set table. row_bin_type r \<in> set valid_bin_types)
       \<and> (\<forall>r\<in>set table. \<forall>r'\<in>set table.
             row_energy_group_idx r = row_energy_group_idx r' \<longrightarrow>
             row_bin_type r = row_bin_type r')
      \<longrightarrow> (\<exists>gs'. from_total_table table = Inr gs'))"
proof (intro conjI impI)
  assume "from_total_table table = Inr gs"
  then have "from_total_table_loop table (unique (map row_energy_group_idx table)) [] = Inr gs"
    by (simp only: from_total_table_def)
  then have "map energy_group_idx gs
      = map energy_group_idx ([] :: SpectrumEnergyGroups) @ unique (map row_energy_group_idx table)"
    by (rule loop_group_idx)
  then show idx: "map energy_group_idx gs = unique (map row_energy_group_idx table)"
    by simp
  show "sorted_wrt (<) (map energy_group_idx gs)"
    unfolding idx by (rule unique_strict_sorted)
next
  assume ok: "(\<forall>r\<in>set table. row_bin_type r \<in> set valid_bin_types)
       \<and> (\<forall>r\<in>set table. \<forall>r'\<in>set table.
             row_energy_group_idx r = row_energy_group_idx r' \<longrightarrow>
             row_bin_type r = row_bin_type r')"
  then have valid: "\<forall>r\<in>set table. row_bin_type r \<in> set valid_bin_types"
    and agree: "\<forall>r\<in>set table. \<forall>r'\<in>set table.
             row_energy_group_idx r = row_energy_group_idx r' \<longrightarrow>
             row_bin_type r = row_bin_type r'"
    by (rule conjunct1, rule conjunct2)
  have "\<forall>egi\<in>set (unique (map row_energy_group_idx table)).
      \<not> 1 < card (set (map row_bin_type (group_rows table egi)))"
    using consistent_groups [OF agree] by (rule ballI)
  with unique_subset
  have "\<exists>gs'. from_total_table_loop table (unique (map row_energy_group_idx table)) [] = Inr gs'"
    using valid by (rule loop_returns)
  then show "\<exists>gs'. from_total_table table = Inr gs'"
    by (simp only: from_total_table_def)
qed

text \<open>
  A table whose rows come in descending order of group index: the groups come back in
  ascending order.
\<close>

theorem from_total_table_sorted_by_group_idx_witness:
  "from_total_table
     [\<lparr>row_bin_idx = 7, row_energy_group_idx = 4, row_bin_type = ''overflow'',
        row_energy_min = 8, row_energy_max = 9\<rparr>,
      \<lparr>row_bin_idx = 3, row_energy_group_idx = 2, row_bin_type = ''normal'',
        row_energy_min = 4, row_energy_max = 6\<rparr>,
      \<lparr>row_bin_idx = 4, row_energy_group_idx = 2, row_bin_type = ''normal'',
        row_energy_min = 4, row_energy_max = 6\<rparr>]
   = Inr [\<lparr>energy_group_idx = 2, bin_idx_min = 3, bin_idx_max = 4, bin_type = ''normal'',
            energy_min = 4, energy_max = 6\<rparr>,
          \<lparr>energy_group_idx = 4, bin_idx_min = 7, bin_idx_max = 7, bin_type = ''overflow'',
            energy_min = 8, energy_max = 9\<rparr>]
   \<and> [2, 4] = unique [4, 2, 2]
   \<and> sorted_wrt (<) [2, 4 :: int]"
proof -
  let ?table =
    "[\<lparr>row_bin_idx = 7, row_energy_group_idx = 4, row_bin_type = ''overflow'',
        row_energy_min = 8, row_energy_max = 9\<rparr>,
      \<lparr>row_bin_idx = 3, row_energy_group_idx = 2, row_bin_type = ''normal'',
        row_energy_min = 4, row_energy_max = 6\<rparr>,
      \<lparr>row_bin_idx = 4, row_energy_group_idx = 2, row_bin_type = ''normal'',
        row_energy_min = 4, row_energy_max = 6\<rparr>]"
  let ?gs =
    "[\<lparr>energy_group_idx = 2, bin_idx_min = 3, bin_idx_max = 4, bin_type = ''normal'',
        energy_min = 4, energy_max = 6\<rparr>,
      \<lparr>energy_group_idx = 4, bin_idx_min = 7, bin_idx_max = 7, bin_type = ''overflow'',
        energy_min = 8, energy_max = 9\<rparr>]"
  have ret: "from_total_table ?table = Inr ?gs"
    by code_simp
  have groups_idx: "map energy_group_idx ?gs = [2, 4]"
    and column: "map row_energy_group_idx ?table = [4, 2, 2]"
    by simp_all
  have "map energy_group_idx ?gs = unique (map row_energy_group_idx ?table)
      \<and> sorted_wrt (<) (map energy_group_idx ?gs)"
    by (rule from_total_table_sorted_by_group_idx [THEN conjunct1, THEN mp, OF ret])
  then have "[2, 4] = unique [4, 2, 2] \<and> sorted_wrt (<) [2, 4 :: int]"
    unfolding groups_idx column .
  with ret show ?thesis
    by (rule conjI)
qed




subsection \<open>find\_list\_idx\<close>

text \<open>
  Claim C5, as amended. For every list of groups and every energy \<open>e\<close>,
  \<open>find_list_idx\<close> returns position \<open>i\<close> exactly when group \<open>i\<close> is the first group
  in list order that contains \<open>e\<close>, and it raises IndexError exactly when no group
  contains \<open>e\<close>. In particular it raises for \<open>e\<close> below the first group's
  \<open>energy_min\<close> when no group of the list starts below the first group, and for \<open>e\<close>
  at or above the last group's \<open>energy_max\<close> when no group of the list ends above the
  last group.
\<close>

theorem find_list_idx_first_containing_group:
  "(find_list_idx gs e = Inr i \<longleftrightarrow>
      i < length gs \<and> contains_energy (gs ! i) e \<and> (\<forall>j<i. \<not> contains_energy (gs ! j) e))
   \<and> ((\<exists>err. find_list_idx gs e = Inl err \<and> exception_class err = IndexError) \<longleftrightarrow>
      (\<forall>g\<in>set gs. \<not> contains_energy g e))
   \<and> ((\<forall>g\<in>set gs. energy_min (hd gs) \<le> energy_min g) \<and> e < energy_min (hd gs) \<longrightarrow>
      (\<exists>err. find_list_idx gs e = Inl err \<and> exception_class err = IndexError))
   \<and> ((\<forall>g\<in>set gs. energy_max g \<le> energy_max (last gs)) \<and> energy_max (last gs) \<le> e \<longrightarrow>
      (\<exists>err. find_list_idx gs e = Inl err \<and> exception_class err = IndexError))"
proof -
  have raises: "(\<exists>err. find_list_idx gs e = Inl err \<and> exception_class err = IndexError) \<longleftrightarrow>
      (\<forall>g\<in>set gs. \<not> contains_energy g e)"
    by (auto simp: find_list_idx_Inl_iff)
  have below: "\<exists>err. find_list_idx gs e = Inl err \<and> exception_class err = IndexError"
    if "(\<forall>g\<in>set gs. energy_min (hd gs) \<le> energy_min g) \<and> e < energy_min (hd gs)"
  proof -
    from that have "\<forall>g\<in>set gs. \<not> contains_energy g e"
      by (auto simp: contains_energy_def)
    then show ?thesis by (simp only: raises)
  qed
  have above: "\<exists>err. find_list_idx gs e = Inl err \<and> exception_class err = IndexError"
    if "(\<forall>g\<in>set gs. energy_max g \<le> energy_max (last gs)) \<and> energy_max (last gs) \<le> e"
  proof -
    from that have "\<forall>g\<in>set gs. \<not> contains_energy g e"
      by (auto simp: contains_energy_def)
    then show ?thesis by (simp only: raises)
  qed
  from find_list_idx_Inr_iff [of gs e i] raises below above show ?thesis
    by (intro conjI impI)
qed

text \<open>
  The test suite's groups: 270 TeV, on the edge between the last two groups, is found in
  the last group (position 3); 99 TeV and 300 TeV raise.
\<close>

theorem find_list_idx_first_containing_group_witness:
  "find_list_idx fixture_groups (270 * TeV) = Inr 3
   \<and> (\<exists>err. find_list_idx fixture_groups (99 * TeV) = Inl err
          \<and> exception_class err = IndexError)
   \<and> (\<exists>err. find_list_idx fixture_groups (300 * TeV) = Inl err
          \<and> exception_class err = IndexError)"
proof (intro conjI)
  show "find_list_idx fixture_groups (270 * TeV) = Inr 3"
  proof (rule find_list_idx_first_containing_group
      [of fixture_groups "270 * TeV" 3, THEN conjunct1, THEN iffD2])
    show "3 < length fixture_groups \<and> contains_energy (fixture_groups ! 3) (270 * TeV)
        \<and> (\<forall>j<3. \<not> contains_energy (fixture_groups ! j) (270 * TeV))"
      by (simp add: fixture_groups_def contains_energy_def TeV_def less_Suc_eq numeral_3_eq_3)
  qed
  show "\<exists>err. find_list_idx fixture_groups (99 * TeV) = Inl err
          \<and> exception_class err = IndexError"
  proof (rule find_list_idx_first_containing_group
      [of fixture_groups "99 * TeV" 0, THEN conjunct2, THEN conjunct2, THEN conjunct1, THEN mp])
    show "(\<forall>g\<in>set fixture_groups. energy_min (hd fixture_groups) \<le> energy_min g)
        \<and> 99 * TeV < energy_min (hd fixture_groups)"
      by (simp add: fixture_groups_def TeV_def)
  qed
  show "\<exists>err. find_list_idx fixture_groups (300 * TeV) = Inl err
          \<and> exception_class err = IndexError"
  proof (rule find_list_idx_first_containing_group
      [of fixture_groups "300 * TeV" 0, THEN conjunct2, THEN conjunct2, THEN conjunct2, THEN mp])
    show "(\<forall>g\<in>set fixture_groups. energy_max g \<le> energy_max (last fixture_groups))
        \<and> energy_max (last fixture_groups) \<le> 300 * TeV"
      by (simp add: fixture_groups_def TeV_def)
  qed
qed

text \<open>
  Claim C5 as stated fails for a list that is not ordered by energy: with a first group
  from 100 to 200 TeV followed by a group from 50 to 100 TeV, the energy 60 TeV is below
  the first group's \<open>energy_min\<close>, and \<open>find_list_idx\<close> returns position 1 instead of
  raising.
\<close>

theorem find_list_idx_below_first_group_counterexample:
  "60 * TeV < energy_min (hd
       [\<lparr>energy_group_idx = 0, bin_idx_min = 0, bin_idx_max = 0, bin_type = ''normal'',
          energy_min = 100 * TeV, energy_max = 200 * TeV\<rparr>,
        \<lparr>energy_group_idx = 1, bin_idx_min = 1, bin_idx_max = 1, bin_type = ''normal'',
          energy_min = 50 * TeV, energy_max = 100 * TeV\<rparr>])
   \<and> find_list_idx
       [\<lparr>energy_group_idx = 0, bin_idx_min = 0, bin_idx_max = 0, bin_type = ''normal'',
          energy_min = 100 * TeV, energy_max = 200 * TeV\<rparr>,
        \<lparr>energy_group_idx = 1, bin_idx_min = 1, bin_idx_max = 1, bin_type = ''normal'',
          energy_min = 50 * TeV, energy_max = 100 * TeV\<rparr>]
       (60 * TeV) = Inr 1"
  by (simp add: find_list_idx_def contains_energy_def TeV_def)

subsection \<open>Table round trips\<close>

text \<open>
  Claim C3, as amended. Two groups are equal when their six fields are, the energies
  compared as physical values, as Python's \<^verbatim>\<open>==\<close> on quantities does. Converting a
  list of group objects to the group table and back gives the groups again whenever
  every bin type is valid. Converting to the total table (one row per bin) and back
  gives the groups again whenever the list is not empty, its \<^verbatim>\<open>energy_group_idx\<close>
  values are strictly increasing along the list, every group has
  \<open>bin_idx_min \<le> bin_idx_max\<close> with both bounds of its \<^verbatim>\<open>np.arange\<close> among the 64-bit
  integers and a valid bin type, and all groups hold their \<^verbatim>\<open>energy_min\<close> in one unit
  and their \<^verbatim>\<open>energy_max\<close> in one unit. Units have a positive size.
\<close>

theorem table_round_trip:
  "((\<forall>obj\<in>set objs. bin_type (fst obj) \<in> set valid_bin_types
        \<and> 0 < unit_of_energy_min (snd obj) \<and> 0 < unit_of_energy_max (snd obj))
      \<longrightarrow> from_group_table (to_group_table objs) = Inr (map fst objs))
   \<and> (objs \<noteq> [] \<and> sorted_wrt (<) (map (\<lambda>obj. energy_group_idx (fst obj)) objs)
       \<and> (\<forall>obj\<in>set objs.
             bin_idx_min (fst obj) \<le> bin_idx_max (fst obj)
             \<and> int64 (bin_idx_min (fst obj)) \<and> int64 (bin_idx_max (fst obj) + 1)
             \<and> bin_type (fst obj) \<in> set valid_bin_types
             \<and> 0 < unit_of_energy_min (snd obj) \<and> 0 < unit_of_energy_max (snd obj)
             \<and> unit_of_energy_min (snd obj) = unit_of_energy_min (snd (last objs))
             \<and> unit_of_energy_max (snd obj) = unit_of_energy_max (snd (last objs)))
      \<longrightarrow> and_then (to_total_table objs) (\<lambda>t. from_total_table (table_quantities t))
            = Inr (map fst objs))"
proof (intro conjI impI)
  assume ok: "\<forall>obj\<in>set objs. bin_type (fst obj) \<in> set valid_bin_types
        \<and> 0 < unit_of_energy_min (snd obj) \<and> 0 < unit_of_energy_max (snd obj)"
  show "from_group_table (to_group_table objs) = Inr (map fst objs)"
  proof (cases objs)
    case Nil
    then show ?thesis
      by (simp add: to_group_table_def table_from_row_data_def from_group_table_def)
  next
    case (Cons obj rest)
    let ?a = "q_unit (d_energy_min (to_dict obj))"
    let ?b = "q_unit (d_energy_max (to_dict obj))"
    let ?table = "table_from_row_data (map to_dict objs)"
    have "obj \<in> set objs"
      by (simp add: Cons)
    with ok have "0 < unit_of_energy_min (snd obj) \<and> 0 < unit_of_energy_max (snd obj)"
      by blast
    then have units: "?a \<noteq> 0" "?b \<noteq> 0"
      by (simp_all add: to_dict_def Let_def quantity_def)
    have cols: "gt_energy_min_unit ?table = ?a" "gt_energy_max_unit ?table = ?b"
      by (simp_all add: table_from_row_data_def Cons)
    have nonzero: "\<forall>obj\<in>set objs. bin_type (fst obj) \<in> set valid_bin_types
           \<and> unit_of_energy_min (snd obj) \<noteq> 0 \<and> unit_of_energy_max (snd obj) \<noteq> 0"
    proof
      fix x assume "x \<in> set objs"
      with ok have "bin_type (fst x) \<in> set valid_bin_types
        \<and> 0 < unit_of_energy_min (snd x) \<and> 0 < unit_of_energy_max (snd x)"
        by (rule bspec)
      then show "bin_type (fst x) \<in> set valid_bin_types
           \<and> unit_of_energy_min (snd x) \<noteq> 0 \<and> unit_of_energy_max (snd x) \<noteq> 0"
        by simp
    qed
    have "from_group_table_rows ?table
       (map (\<lambda>d. \<lparr>gcell_energy_group_idx = d_energy_group_idx d,
                 gcell_bin_idx_min = d_bin_idx_min d,
                 gcell_bin_idx_max = d_bin_idx_max d,
                 gcell_bin_type = d_bin_type d,
                 gcell_energy_min = q_value (quantity ?a (physical (d_energy_min d))),
                 gcell_energy_max = q_value (quantity ?b (physical (d_energy_max d)))\<rparr>)
          (map to_dict objs)) = Inr (map fst objs)"
      using units cols nonzero by (rule from_group_table_rows_converted)
    moreover have "gt_rows ?table =
        map (\<lambda>d. \<lparr>gcell_energy_group_idx = d_energy_group_idx d,
                 gcell_bin_idx_min = d_bin_idx_min d,
                 gcell_bin_idx_max = d_bin_idx_max d,
                 gcell_bin_type = d_bin_type d,
                 gcell_energy_min = q_value (quantity ?a (physical (d_energy_min d))),
                 gcell_energy_max = q_value (quantity ?b (physical (d_energy_max d)))\<rparr>)
          (map to_dict objs)"
      by (simp add: table_from_row_data_def Cons)
    ultimately show ?thesis
      by (simp only: from_group_table_def to_group_table_def)
  qed
next
  assume asm: "objs \<noteq> [] \<and> sorted_wrt (<) (map (\<lambda>obj. energy_group_idx (fst obj)) objs)
       \<and> (\<forall>obj\<in>set objs.
             bin_idx_min (fst obj) \<le> bin_idx_max (fst obj)
             \<and> int64 (bin_idx_min (fst obj)) \<and> int64 (bin_idx_max (fst obj) + 1)
             \<and> bin_type (fst obj) \<in> set valid_bin_types
             \<and> 0 < unit_of_energy_min (snd obj) \<and> 0 < unit_of_energy_max (snd obj)
             \<and> unit_of_energy_min (snd obj) = unit_of_energy_min (snd (last objs))
             \<and> unit_of_energy_max (snd obj) = unit_of_energy_max (snd (last objs)))"
  note nonempty = asm [THEN conjunct1]
  note sorted = asm [THEN conjunct2, THEN conjunct1]
  note each = asm [THEN conjunct2, THEN conjunct2]
  let ?a = "unit_of_energy_min (snd (last objs))"
  let ?b = "unit_of_energy_max (snd (last objs))"
  from nonempty have "last objs \<in> set objs"
    by (rule last_in_set)
  with each have "0 < ?a \<and> 0 < ?b"
    by blast
  then have units: "?a \<noteq> 0" "?b \<noteq> 0"
    by simp_all
  have same: "\<forall>obj\<in>set objs. int64 (bin_idx_min (fst obj))
      \<and> int64 (bin_idx_max (fst obj) + 1)
      \<and> unit_of_energy_min (snd obj) = ?a \<and> unit_of_energy_max (snd obj) = ?b"
    using each by blast
  have ranges: "\<forall>g\<in>set (map fst objs).
      bin_idx_min g \<le> bin_idx_max g \<and> bin_type g \<in> set valid_bin_types"
  proof
    fix g assume "g \<in> set (map fst objs)"
    then obtain obj where "obj \<in> set objs" "g = fst obj"
      by auto
    with each show "bin_idx_min g \<le> bin_idx_max g \<and> bin_type g \<in> set valid_bin_types"
      by blast
  qed
  from nonempty same units obtain t where t: "to_total_table objs = Inr t"
    "table_quantities t = concat (map bin_rows (map fst objs))"
    using read_stacked_bin_tables [of objs ?a ?b] by blast
  have "sorted_wrt (<) (map energy_group_idx (map fst objs))"
    using sorted by (simp add: comp_def)
  then have "from_total_table (concat (map bin_rows (map fst objs))) = Inr (map fst objs)"
    using ranges by (rule from_total_table_of_bin_rows)
  with t show "and_then (to_total_table objs) (\<lambda>t. from_total_table (table_quantities t))
            = Inr (map fst objs)"
    by (simp only: and_then_Inr)
qed

text \<open>The test suite's groups, all held in TeV, make both round trips.\<close>

theorem table_round_trip_witness:
  "from_group_table
     (to_group_table
        (map (\<lambda>g. (g, \<lparr>unit_of_energy_min = TeV, unit_of_energy_max = TeV\<rparr>)) fixture_groups))
   = Inr fixture_groups
   \<and> and_then
     (to_total_table
        (map (\<lambda>g. (g, \<lparr>unit_of_energy_min = TeV, unit_of_energy_max = TeV\<rparr>)) fixture_groups))
     (\<lambda>t. from_total_table (table_quantities t))
   = Inr fixture_groups"
proof -
  let ?objs = "map (\<lambda>g. (g, \<lparr>unit_of_energy_min = TeV, unit_of_energy_max = TeV\<rparr>)) fixture_groups"
  have groups: "map fst ?objs = fixture_groups"
    by (simp add: comp_def)
  have "from_group_table (to_group_table ?objs) = Inr (map fst ?objs)"
  proof (rule table_round_trip [of ?objs, THEN conjunct1, THEN mp])
    show "\<forall>obj\<in>set ?objs. bin_type (fst obj) \<in> set valid_bin_types
        \<and> 0 < unit_of_energy_min (snd obj) \<and> 0 < unit_of_energy_max (snd obj)"
      by (simp add: fixture_groups_def valid_bin_types_def TeV_def)
  qed
  moreover
  have "and_then (to_total_table ?objs) (\<lambda>t. from_total_table (table_quantities t))
      = Inr (map fst ?objs)"
  proof (rule table_round_trip [of ?objs, THEN conjunct2, THEN mp])
    show "?objs \<noteq> [] \<and> sorted_wrt (<) (map (\<lambda>obj. energy_group_idx (fst obj)) ?objs)
       \<and> (\<forall>obj\<in>set ?objs.
             bin_idx_min (fst obj) \<le> bin_idx_max (fst obj)
             \<and> int64 (bin_idx_min (fst obj)) \<and> int64 (bin_idx_max (fst obj) + 1)
             \<and> bin_type (fst obj) \<in> set valid_bin_types
             \<and> 0 < unit_of_energy_min (snd obj) \<and> 0 < unit_of_energy_max (snd obj)
             \<and> unit_of_energy_min (snd obj) = unit_of_energy_min (snd (last ?objs))
             \<and> unit_of_energy_max (snd obj) = unit_of_energy_max (snd (last ?objs)))"
      by (simp add: fixture_groups_def valid_bin_types_def TeV_def int64_def)
  qed
  ultimately show ?thesis
    unfolding groups by (rule conjI)
qed

text \<open>
  Claim C3 as stated fails on the total-table route for a list whose group indices are
  not ascending: \<open>from_total_table\<close> visits the group indices in ascending order, so two
  groups listed with indices 1, 0 come back in the order 0, 1.
\<close>

theorem total_table_round_trip_counterexample:
  "and_then
     (to_total_table
        [(\<lparr>energy_group_idx = 1, bin_idx_min = 0, bin_idx_max = 1, bin_type = ''normal'',
            energy_min = 1 * TeV, energy_max = 3 * TeV\<rparr>,
          \<lparr>unit_of_energy_min = TeV, unit_of_energy_max = TeV\<rparr>),
         (\<lparr>energy_group_idx = 0, bin_idx_min = 2, bin_idx_max = 2, bin_type = ''normal'',
            energy_min = 3 * TeV, energy_max = 4 * TeV\<rparr>,
          \<lparr>unit_of_energy_min = TeV, unit_of_energy_max = TeV\<rparr>)])
     (\<lambda>t. from_total_table (table_quantities t))
   = Inr [\<lparr>energy_group_idx = 0, bin_idx_min = 2, bin_idx_max = 2, bin_type = ''normal'',
            energy_min = 3 * TeV, energy_max = 4 * TeV\<rparr>,
          \<lparr>energy_group_idx = 1, bin_idx_min = 0, bin_idx_max = 1, bin_type = ''normal'',
            energy_min = 1 * TeV, energy_max = 3 * TeV\<rparr>]
   \<and> and_then
     (to_total_table
        [(\<lparr>energy_group_idx = 1, bin_idx_min = 0, bin_idx_max = 1, bin_type = ''normal'',
            energy_min = 1 * TeV, energy_max = 3 * TeV\<rparr>,
          \<lparr>unit_of_energy_min = TeV, unit_of_energy_max = TeV\<rparr>),
         (\<lparr>energy_group_idx = 0, bin_idx_min = 2, bin_idx_max = 2, bin_type = ''normal'',
            energy_min = 3 * TeV, energy_max = 4 * TeV\<rparr>,
          \<lparr>unit_of_energy_min = TeV, unit_of_energy_max = TeV\<rparr>)])
     (\<lambda>t. from_total_table (table_quantities t))
   \<noteq> Inr [\<lparr>energy_group_idx = 1, bin_idx_min = 0, bin_idx_max = 1, bin_type = ''normal'',
            energy_min = 1 * TeV, energy_max = 3 * TeV\<rparr>,
          \<lparr>energy_group_idx = 0, bin_idx_min = 2, bin_idx_max = 2, bin_type = ''normal'',
            energy_min = 3 * TeV, energy_max = 4 * TeV\<rparr>]"
proof -
  have "and_then
     (to_total_table
        [(\<lparr>energy_group_idx = 1, bin_idx_min = 0, bin_idx_max = 1, bin_type = ''normal'',
            energy_min = 1 * TeV, energy_max = 3 * TeV\<rparr>,
          \<lparr>unit_of_energy_min = TeV, unit_of_energy_max = TeV\<rparr>),
         (\<lparr>energy_group_idx = 0, bin_idx_min = 2, bin_idx_max = 2, bin_type = ''normal'',
            energy_min = 3 * TeV, energy_max = 4 * TeV\<rparr>,
          \<lparr>unit_of_energy_min = TeV, unit_of_energy_max = TeV\<rparr>)])
     (\<lambda>t. from_total_table (table_quantities t))
   = Inr [\<lparr>energy_group_idx = 0, bin_idx_min = 2, bin_idx_max = 2, bin_type = ''normal'',
            energy_min = 3 * TeV, energy_max = 4 * TeV\<rparr>,
          \<lparr>energy_group_idx = 1, bin_idx_min = 0, bin_idx_max = 1, bin_type = ''normal'',
            energy_min = 1 * TeV, energy_max = 3 * TeV\<rparr>]"
    by code_simp
  then show ?thesis
    by simp
qed

text \<open>
  It fails as well for groups held in different units: the stacked energy columns keep
  the numbers and take the unit of the last table, so a group from 1 to 2 TeV stacked
  before a group held in GeV is read back as a group from 1 to 2 GeV.
\<close>

lemma total_table_round_trip_mixed_units:
  "and_then
     (to_total_table
        [(\<lparr>energy_group_idx = 0, bin_idx_min = 0, bin_idx_max = 1, bin_type = ''normal'',
            energy_min = 1 * TeV, energy_max = 2 * TeV\<rparr>,
          \<lparr>unit_of_energy_min = TeV, unit_of_energy_max = TeV\<rparr>),
         (\<lparr>energy_group_idx = 1, bin_idx_min = 2, bin_idx_max = 3, bin_type = ''normal'',
            energy_min = 2000 * GeV, energy_max = 3000 * GeV\<rparr>,
          \<lparr>unit_of_energy_min = GeV, unit_of_energy_max = GeV\<rparr>)])
     (\<lambda>t. from_total_table (table_quantities t))
   = Inr [\<lparr>energy_group_idx = 0, bin_idx_min = 0, bin_idx_max = 1, bin_type = ''normal'',
            energy_min = 1 * GeV, energy_max = 2 * GeV\<rparr>,
          \<lparr>energy_group_idx = 1, bin_idx_min = 2, bin_idx_max = 3, bin_type = ''normal'',
            energy_min = 2000 * GeV, energy_max = 3000 * GeV\<rparr>]"
  by code_simp

subsection \<open>groups\_from\_obs\<close>

text \<open>
  Claim C8. For every observation, \<open>groups_from_obs\<close> sets the groups to one group per
  bin of the observation, \<open>nbins\<close> groups in all: group \<open>i\<close> has group index \<open>i\<close>,
  covers exactly bin \<open>i\<close> (\<open>bin_idx_min = bin_idx_max = i\<close>), has bin type normal, and
  its energy bounds are the lower and the upper edge of bin \<open>i\<close>.
\<close>

theorem groups_from_obs_one_group_per_bin:
  "groups_from_obs self =
     Inr (self\<lparr>groups := Some
       (map (\<lambda>i. \<lparr>energy_group_idx = int i, bin_idx_min = int i, bin_idx_max = int i,
                    bin_type = ''normal'',
                    energy_min = lower_bounds (e_reco (obs self)) ! i,
                    energy_max = upper_bounds (e_reco (obs self)) ! i\<rparr>)
            [0..<nbins (e_reco (obs self))])\<rparr>)
   \<and> length (map (\<lambda>i. \<lparr>energy_group_idx = int i, bin_idx_min = int i, bin_idx_max = int i,
                    bin_type = ''normal'',
                    energy_min = lower_bounds (e_reco (obs self)) ! i,
                    energy_max = upper_bounds (e_reco (obs self)) ! i\<rparr>)
            [0..<nbins (e_reco (obs self))]) = nbins (e_reco (obs self))"
proof -
  let ?eb = "e_reco (obs self)"
  let ?g = "\<lambda>i. \<lparr>energy_group_idx = int i, bin_idx_min = int i, bin_idx_max = int i,
                    bin_type = ''normal'',
                    energy_min = lower_bounds ?eb ! i, energy_max = upper_bounds ?eb ! i\<rparr>"
  let ?gs = "map ?g [0..<nbins ?eb]"
  let ?table = "map (\<lambda>i. \<lparr>row_bin_idx = int i, row_energy_group_idx = int i,
                             row_bin_type = ''normal'',
                             row_energy_min = lower_bounds ?eb ! i,
                             row_energy_max = upper_bounds ?eb ! i\<rparr>) [0..<nbins ?eb]"
  have table: "?table = concat (map bin_rows ?gs)"
    by (simp add: bin_rows_single_bin comp_def)
  have "map energy_group_idx ?gs = map int [0..<nbins ?eb]"
    by (simp add: comp_def)
  then have sorted: "sorted_wrt (<) (map energy_group_idx ?gs)"
    by (simp only: sorted_wrt_map_int_upt)
  have ok: "\<forall>g\<in>set ?gs. bin_idx_min g \<le> bin_idx_max g \<and> bin_type g \<in> set valid_bin_types"
    by (auto simp: valid_bin_types_def)
  have "from_total_table (concat (map bin_rows ?gs)) = Inr ?gs"
    using sorted ok by (rule from_total_table_of_bin_rows)
  then have "from_total_table ?table = Inr ?gs"
    by (simp only: table)
  then have "groups_from_obs self = Inr (self\<lparr>groups := Some ?gs\<rparr>)"
    by (simp add: groups_from_obs_def Let_def and_then_Inr)
  then show ?thesis
    by simp
qed

end
